theory Spec2Isabelle
  imports Main "HOL-Library.AList"
begin

section \<open>Python values and exceptions\<close>

text \<open>
  The agents pass around values decoded from JSON text and values stored in the
  run context. \<open>pyval\<close> is the universe of such values: \<open>None\<close>, booleans, integers,
  strings, lists and dictionaries. Floating-point numbers are left out.
\<close>

datatype pyval =
    VNone
  | VBool bool
  | VInt int
  | VStr string
  | VList "pyval list"
  | VDict "(pyval \<times> pyval) list"

text \<open>
  Exceptions are values. \<open>KeyError\<close> carries the missing key; the other constructors
  carry the text of the exception. Every constructor is a subclass of Python's
  \<open>Exception\<close>, so an \<open>except Exception\<close> clause catches each of them.
\<close>

datatype exn =
    KeyError pyval
  | TypeError string
  | AttributeError string
  | ValueError string
  | RuntimeError string
  | JSONDecodeError string
  | ProviderError string

subsection \<open>Truthiness, hashing and dictionaries\<close>

fun truthy :: "pyval \<Rightarrow> bool" where
  "truthy VNone = False"
| "truthy (VBool b) = b"
| "truthy (VInt i) = (i \<noteq> 0)"
| "truthy (VStr s) = (s \<noteq> [])"
| "truthy (VList xs) = (xs \<noteq> [])"
| "truthy (VDict kvs) = (kvs \<noteq> [])"

fun hashable :: "pyval \<Rightarrow> bool" where
  "hashable (VList xs) = False"
| "hashable (VDict kvs) = False"
| "hashable v = True"

text \<open>
  Python compares dictionary keys with \<open>==\<close>, under which \<open>True == 1\<close> and
  \<open>False == 0\<close>. \<open>key_of\<close> maps a key to the representative of its equality class.
\<close>

fun key_of :: "pyval \<Rightarrow> pyval" where
  "key_of (VBool b) = VInt (if b then 1 else 0)"
| "key_of v = v"

text \<open>
  A dictionary is an association list in insertion order. Assigning to a key that is
  already present keeps the key and its position and replaces the value.
\<close>

fun dict_get :: "(pyval \<times> pyval) list \<Rightarrow> pyval \<Rightarrow> pyval option" where
  "dict_get [] k = None"
| "dict_get ((k', v) # d) k = (if key_of k' = key_of k then Some v else dict_get d k)"

fun dict_set :: "(pyval \<times> pyval) list \<Rightarrow> pyval \<Rightarrow> pyval \<Rightarrow> (pyval \<times> pyval) list" where
  "dict_set [] k v = [(k, v)]"
| "dict_set ((k', v') # d) k v =
     (if key_of k' = key_of k then (k', v) # d else (k', v') # dict_set d k v)"

definition dict_has :: "(pyval \<times> pyval) list \<Rightarrow> pyval \<Rightarrow> bool" where
  "dict_has d k = (dict_get d k \<noteq> None)"

text \<open>\<open>obj[key]\<close> for a string key: only a dictionary can be subscripted by a string.\<close>

fun subscript :: "pyval \<Rightarrow> string \<Rightarrow> exn + pyval" where
  "subscript (VDict d) k =
     (case dict_get d (VStr k) of None \<Rightarrow> Inl (KeyError (VStr k)) | Some v \<Rightarrow> Inr v)"
| "subscript (VList xs) k = Inl (TypeError ''list indices must be integers or slices, not str'')"
| "subscript (VStr s) k = Inl (TypeError ''string indices must be integers'')"
| "subscript v k = Inl (TypeError ''object is not subscriptable'')"

text \<open>\<open>obj.get(key, default)\<close>: only a dictionary has the method \<open>get\<close>.\<close>

fun get_default :: "pyval \<Rightarrow> string \<Rightarrow> pyval \<Rightarrow> exn + pyval" where
  "get_default (VDict d) k dflt =
     (case dict_get d (VStr k) of None \<Rightarrow> Inr dflt | Some v \<Rightarrow> Inr v)"
| "get_default v k dflt = Inl (AttributeError ''object has no attribute get'')"

text \<open>
  \<open>for x in obj\<close>: a list yields its elements, a string its characters, a dictionary
  its keys; the other values are not iterable.
\<close>

fun iterate :: "pyval \<Rightarrow> exn + pyval list" where
  "iterate (VList xs) = Inr xs"
| "iterate (VStr s) = Inr (map (\<lambda>c. VStr [c]) s)"
| "iterate (VDict d) = Inr (map fst d)"
| "iterate v = Inl (TypeError ''object is not iterable'')"

text \<open>\<open>f(**obj)\<close>: the argument must be a mapping whose keys are strings.\<close>

fun str_key :: "pyval \<times> pyval \<Rightarrow> (string \<times> pyval) option" where
  "str_key (VStr k, v) = Some (k, v)"
| "str_key (k, v) = None"

fun kwargs_of :: "pyval \<Rightarrow> exn + (string \<times> pyval) list" where
  "kwargs_of (VDict d) =
     (if list_all (\<lambda>kv. str_key kv \<noteq> None) d then Inr (map (the \<circ> str_key) d)
      else Inl (TypeError ''keywords must be strings''))"
| "kwargs_of v = Inl (TypeError ''argument after ** must be a mapping'')"

fun join :: "string \<Rightarrow> string list \<Rightarrow> string" where
  "join sep [] = []"
| "join sep [x] = x"
| "join sep (x # y # ys) = x @ sep @ join sep (y # ys)"

section \<open>The builtin \<open>str.format\<close>\<close>

text \<open>
  Both agents build their system prompt with \<open>system_prompt.format(...)\<close>, passing
  keyword arguments only. \<open>py_format\<close> follows CPython's scanner for format strings:
  literal text is copied, \<open>{{\<close> and \<open>}}\<close> stand for a brace, and a single \<open>{\<close> opens a
  replacement field. The field name runs up to \<open>}\<close>, \<open>:\<close> or \<open>!\<close>; after \<open>:\<close> the format
  spec runs up to the matching \<open>}\<close>, nested braces counted. The field is then looked up:
  a name that is not a number is a keyword, and a keyword that was not passed raises
  \<open>KeyError\<close>. The result is \<open>None\<close> where the format string leaves the fragment
  modelled here: conversions (\<open>!r\<close>), positional and auto-numbered fields, and
  attribute access, indexing or a non-empty format spec on a keyword that was passed.
\<close>

datatype fstate =
    Lit
  | Open
  | Close
  | Name string
  | Bracket string
  | Spec string nat string

datatype faction =
    Go fstate
  | Emit char
  | Field string string
  | Fail exn
  | Unmodelled

definition name_step :: "string \<Rightarrow> char \<Rightarrow> faction" where
  "name_step n c =
     (if c = CHR ''{'' then Fail (ValueError ''unexpected '{' in field name'')
      else if c = CHR ''['' then Go (Bracket (c # n))
      else if c = CHR ''}'' then Field (rev n) []
      else if c = CHR '':'' then Go (Spec n 1 [])
      else if c = CHR ''!'' then Unmodelled
      else Go (Name (c # n)))"

fun fstep :: "fstate \<Rightarrow> char \<Rightarrow> faction" where
  "fstep Lit c =
     (if c = CHR ''{'' then Go Open else if c = CHR ''}'' then Go Close else Emit c)"
| "fstep Open c = (if c = CHR ''{'' then Emit c else name_step [] c)"
| "fstep Close c =
     (if c = CHR ''}'' then Emit c
      else Fail (ValueError ''Single '}' encountered in format string''))"
| "fstep (Name n) c = name_step n c"
| "fstep (Bracket n) c = (if c = CHR '']'' then Go (Name (c # n)) else Go (Bracket (c # n)))"
| "fstep (Spec n k sp) c =
     (if c = CHR ''{'' then Go (Spec n (Suc k) (c # sp))
      else if c = CHR ''}'' then
        (if k = 1 then Field (rev n) (rev sp) else Go (Spec n (k - 1) (c # sp)))
      else Go (Spec n k (c # sp)))"

fun fend :: "fstate \<Rightarrow> string \<Rightarrow> exn + string" where
  "fend Lit out = Inr (rev out)"
| "fend Open out = Inl (ValueError ''Single '{' encountered in format string'')"
| "fend Close out = Inl (ValueError ''Single '}' encountered in format string'')"
| "fend (Name n) out = Inl (ValueError ''expected '}' before end of string'')"
| "fend (Bracket n) out = Inl (ValueError ''expected '}' before end of string'')"
| "fend (Spec n k sp) out = Inl (ValueError ''unmatched '{' in format spec'')"

definition is_digit :: "char \<Rightarrow> bool" where
  "is_digit c = (c \<in> set ''0123456789'')"

definition field_value :: "(string \<times> string) list \<Rightarrow> string \<Rightarrow> string \<Rightarrow> (exn + string) option" where
  "field_value kw name spec =
     (let first = takeWhile (\<lambda>c. c \<noteq> CHR ''.'' \<and> c \<noteq> CHR ''['') name in
      if list_all is_digit first then None
      else (case map_of kw first of
              None \<Rightarrow> Some (Inl (KeyError (VStr first)))
            | Some v \<Rightarrow> if first \<noteq> name \<or> spec \<noteq> [] then None else Some (Inr v)))"

fun fmt_scan :: "(string \<times> string) list \<Rightarrow> fstate \<Rightarrow> string \<Rightarrow> string \<Rightarrow> (exn + string) option" where
  "fmt_scan kw st out [] = Some (fend st out)"
| "fmt_scan kw st out (c # cs) =
     (case fstep st c of
        Go st' \<Rightarrow> fmt_scan kw st' out cs
      | Emit d \<Rightarrow> fmt_scan kw Lit (d # out) cs
      | Field name spec \<Rightarrow>
          (case field_value kw name spec of
             None \<Rightarrow> None
           | Some (Inl e) \<Rightarrow> Some (Inl e)
           | Some (Inr v) \<Rightarrow> fmt_scan kw Lit (rev v @ out) cs)
      | Fail e \<Rightarrow> Some (Inl e)
      | Unmodelled \<Rightarrow> None)"

definition py_format :: "string \<Rightarrow> (string \<times> string) list \<Rightarrow> (exn + string) option" where
  "py_format t kw = fmt_scan kw Lit [] t"

section \<open>Prompt templates\<close>

text \<open>
  The two \<open>system_prompt\<close> literals of \<open>PlannerAgent._create_planning_prompt\<close> and
  \<open>ExecutorAgent._create_execution_prompt\<close>, character for character. Each ends
  with an example JSON object whose braces are written singly.
\<close>

definition planning_template :: string where
  \<open>planning_template = concat
    [''You are a task planning expert. Your job is to break down complex tasks into smaller, \<newline>'',
     ''        manageable steps that can be executed by an AI agent. Consider dependencies between steps and ensure \<newline>'',
     ''        the plan is logical and complete.\<newline>'',
     ''        \<newline>'',
     ''        Available tools:\<newline>'',
     ''        {tools}\<newline>'',
     ''        \<newline>'',
     ''        Create a detailed plan that:\<newline>'',
     ''        1. Breaks down the task into clear, actionable steps\<newline>'',
     ''        2. Identifies any dependencies between steps\<newline>'',
     ''        3. Specifies which tools should be used for each step\<newline>'',
     ''        4. Includes any necessary context or information gathering steps\<newline>'',
     ''        \<newline>'',
     ''        Format your response as a JSON object with the following structure:\<newline>'',
     ''        {\<newline>'',
     ''            "steps": [\<newline>'',
     ''                {\<newline>'',
     ''                    "id": "step_1",\<newline>'',
     ''                    "description": "Description of the step",\<newline>'',
     ''                    "tool": "tool_name",\<newline>'',
     ''                    "dependencies": ["step_0"],\<newline>'',
     ''                    "expected_output": "What this step should produce"\<newline>'',
     ''                }\<newline>'',
     ''            ]\<newline>'',
     ''        }'']\<close>

definition execution_template :: string where
  \<open>execution_template = concat
    [''You are an execution expert. Your job is to execute the given step using the \<newline>'',
     ''        appropriate tool and provide clear, detailed results.\<newline>'',
     ''        \<newline>'',
     ''        Available tools:\<newline>'',
     ''        {tools}\<newline>'',
     ''        \<newline>'',
     ''        Previous step results:\<newline>'',
     ''        {previous_results}\<newline>'',
     ''        \<newline>'',
     ''        Execute the step and provide:\<newline>'',
     ''        1. The exact tool to use and why\<newline>'',
     ''        2. The input parameters for the tool\<newline>'',
     ''        3. How to handle the tool's output\<newline>'',
     ''        4. Any necessary error handling\<newline>'',
     ''        \<newline>'',
     ''        Format your response as a JSON object with the following structure:\<newline>'',
     ''        {\<newline>'',
     ''            "tool": "tool_name",\<newline>'',
     ''            "parameters": {\<newline>'',
     ''                "param1": "value1"\<newline>'',
     ''            },\<newline>'',
     ''            "error_handling": "How to handle potential errors",\<newline>'',
     ''            "expected_output": "What output to expect"\<newline>'',
     ''        }'']\<close>

definition planning_field :: string where
  \<open>planning_field = ''\<newline>            "steps"''\<close>

definition execution_field :: string where
  \<open>execution_field = ''\<newline>            "tool"''\<close>

section \<open>Data model\<close>

text \<open>
  A tool (\<open>langchain.tools.Tool\<close>) has a name, a description and a callable, invoked
  with keyword arguments; the call returns a value or raises.
\<close>

record tool =
  t_name :: string
  t_description :: string
  t_call :: "(string \<times> pyval) list \<Rightarrow> exn + pyval"

text \<open>A prompt is the pair of a system message and a human message.\<close>

record prompt =
  system_msg :: string
  human_msg :: string

text \<open>
  A message is a dictionary with string keys (\<open>role\<close>, \<open>content\<close>). A context value
  is a plain value or \<open>CacheRef\<close>, the reference to the \<open>_step_results\<close> dictionary of
  the executor: \<open>ExecutorAgent.process\<close> stores that dictionary itself in the context,
  not a copy of it, so the value seen under \<open>execution_results\<close> is whatever the
  executor's dictionary holds at the time of reading (\<open>deref\<close>). The model follows one
  executor instance.
\<close>

type_synonym message = "(string \<times> pyval) list"

datatype cval = Val pyval | CacheRef

record agent_state =
  s_messages :: "message list"
  s_memory :: "(string \<times> pyval) list"
  s_context :: "(string \<times> cval) list"

record planner =
  p_initialized :: bool
  p_tools :: "tool list"

record executor =
  e_initialized :: bool
  e_tools :: "(string \<times> tool) list"
  step_results :: "(pyval \<times> pyval) list"

record graph_state =
  g_messages :: "message list"
  g_memory :: "(string \<times> pyval) list"
  g_context :: "(string \<times> cval) list"
  current_agent :: string

text \<open>
  The library and external operations the agents call: \<open>json.loads\<close> and
  \<open>json.dumps\<close>, \<open>str.format\<close>, the rendering of a value inside an f-string
  (\<open>py_str\<close>), the text \<open>str(e)\<close> of an exception raised by the interpreter or a
  library (\<open>exc_text\<close>), and the language-model call \<open>self.llm.invoke(prompt).content\<close>.
  Each is a function of its arguments that returns a value or an exception.
\<close>

record env =
  json_loads :: "string \<Rightarrow> exn + pyval"
  json_dumps :: "pyval \<Rightarrow> exn + string"
  str_format :: "string \<Rightarrow> (string \<times> string) list \<Rightarrow> exn + string"
  py_str :: "pyval \<Rightarrow> string"
  exc_text :: "exn \<Rightarrow> string"
  llm_invoke :: "prompt \<Rightarrow> exn + string"

text \<open>
  An environment formats like Python when its \<open>str_format\<close> agrees with \<open>py_format\<close>
  wherever the latter is defined.
\<close>

definition formats_like_python :: "env \<Rightarrow> bool" where
  "formats_like_python env =
     (\<forall>t kw r. py_format t kw = Some r \<longrightarrow> str_format env t kw = r)"

definition fmt_val :: "env \<Rightarrow> pyval \<Rightarrow> string" where
  "fmt_val env v = (case v of VStr s \<Rightarrow> s | _ \<Rightarrow> py_str env v)"

definition exn_str :: "env \<Rightarrow> exn \<Rightarrow> string" where
  "exn_str env e = (case e of ValueError m \<Rightarrow> m | RuntimeError m \<Rightarrow> m | _ \<Rightarrow> exc_text env e)"

definition loads :: "env \<Rightarrow> pyval \<Rightarrow> exn + pyval" where
  "loads env v =
     (case v of
        VStr s \<Rightarrow> json_loads env s
      | _ \<Rightarrow> Inl (TypeError ''the JSON object must be str, bytes or bytearray''))"

definition deref :: "executor \<Rightarrow> cval \<Rightarrow> pyval" where
  "deref ex c = (case c of Val v \<Rightarrow> v | CacheRef \<Rightarrow> VDict (step_results ex))"

definition context_value :: "executor \<Rightarrow> (string \<times> cval) list \<Rightarrow> pyval" where
  "context_value ex ctx = VDict (map (\<lambda>(k, c). (VStr k, deref ex c)) ctx)"

definition assistant_message :: "string \<Rightarrow> message" where
  "assistant_message text = [(''role'', VStr ''assistant''), (''content'', VStr text)]"

section \<open>Planner\<close>

definition PlannerAgent_init :: planner where
  "PlannerAgent_init = \<lparr>p_initialized = False, p_tools = []\<rparr>"

definition planner_initialize :: "planner \<Rightarrow> planner" where
  "planner_initialize pl = (if \<not> p_initialized pl then pl\<lparr>p_initialized := True\<rparr> else pl)"

definition planner_add_tool :: "planner \<Rightarrow> tool \<Rightarrow> planner" where
  "planner_add_tool pl t = pl\<lparr>p_tools := p_tools pl @ [t]\<rparr>"

definition planner_tool_listing :: "planner \<Rightarrow> string" where
  "planner_tool_listing pl =
     join ''\<newline>'' (map (\<lambda>t. ''- '' @ t_name t @ '': '' @ t_description t) (p_tools pl))"

definition create_planning_prompt :: "env \<Rightarrow> planner \<Rightarrow> pyval \<Rightarrow> exn + prompt" where
  "create_planning_prompt env pl task =
     (case str_format env planning_template [(''tools'', planner_tool_listing pl)] of
        Inl e \<Rightarrow> Inl e
      | Inr sys \<Rightarrow> Inr \<lparr>system_msg = sys, human_msg = ''Task to plan: '' @ fmt_val env task\<rparr>)"

text \<open>\<open>state.messages[-1].get("content", "")\<close>, for a non-empty list of messages.\<close>

definition last_content :: "message list \<Rightarrow> pyval" where
  "last_content ms = (case map_of (last ms) ''content'' of None \<Rightarrow> VStr [] | Some v \<Rightarrow> v)"

text \<open>
  \<open>PlannerAgent.process\<close>. The planner object is returned next to the outcome: its
  \<open>_initialized\<close> flag is set before anything can raise.
\<close>

definition planner_process :: "env \<Rightarrow> planner \<Rightarrow> agent_state \<Rightarrow> planner \<times> (exn + agent_state)" where
  "planner_process env pl s =
     (let pl0 = planner_initialize pl in
      if s_messages s = [] then (pl0, Inr s)
      else
        let task = last_content (s_messages s)
        in case create_planning_prompt env pl0 task of
             Inl e \<Rightarrow> (pl0, Inl e)
           | Inr p \<Rightarrow>
               (case llm_invoke env p of
                  Inl e \<Rightarrow> (pl0, Inl e)
                | Inr content \<Rightarrow>
                    (pl0, Inr (s\<lparr>s_context := AList.update ''plan'' (Val (VStr content)) (s_context s),
                                 s_messages := s_messages s @
                                   [assistant_message (''Created execution plan:\<newline>'' @ content)]\<rparr>))))"

section \<open>Executor\<close>

definition ExecutorAgent_init :: executor where
  "ExecutorAgent_init = \<lparr>e_initialized = False, e_tools = [], step_results = []\<rparr>"

definition executor_initialize :: "executor \<Rightarrow> executor" where
  "executor_initialize ex = (if \<not> e_initialized ex then ex\<lparr>e_initialized := True\<rparr> else ex)"

definition executor_add_tool :: "executor \<Rightarrow> tool \<Rightarrow> executor" where
  "executor_add_tool ex t = ex\<lparr>e_tools := AList.update (t_name t) t (e_tools ex)\<rparr>"

definition executor_tool_listing :: "executor \<Rightarrow> string" where
  "executor_tool_listing ex =
     join ''\<newline>'' (map (\<lambda>(name, t). ''- '' @ name @ '': '' @ t_description t) (e_tools ex))"

definition create_execution_prompt :: "env \<Rightarrow> executor \<Rightarrow> pyval \<Rightarrow> (string \<times> cval) list \<Rightarrow> exn + prompt" where
  "create_execution_prompt env ex step ctx =
     (case json_dumps env (VDict (step_results ex)) of
        Inl e \<Rightarrow> Inl e
      | Inr prev \<Rightarrow>
     (case str_format env execution_template
             [(''tools'', executor_tool_listing ex), (''previous_results'', prev)] of
        Inl e \<Rightarrow> Inl e
      | Inr sys \<Rightarrow>
     (case json_dumps env step of
        Inl e \<Rightarrow> Inl e
      | Inr sj \<Rightarrow>
     (case json_dumps env (context_value ex ctx) of
        Inl e \<Rightarrow> Inl e
      | Inr cj \<Rightarrow>
          Inr \<lparr>system_msg = sys,
               human_msg = ''Step to execute: '' @ sj @ ''\<newline>Context: '' @ cj\<rparr>))))"

text \<open>\<open>self._tools.get(name)\<close>: the key must be hashable; only a string can be found.\<close>

definition tools_get :: "executor \<Rightarrow> pyval \<Rightarrow> exn + tool option" where
  "tools_get ex name =
     (if \<not> hashable name then Inl (TypeError ''unhashable type'')
      else case name of VStr n \<Rightarrow> Inr (map_of (e_tools ex) n) | _ \<Rightarrow> Inr None)"

text \<open>The body of the inner \<open>try\<close>: \<open>tool(**execution_plan["parameters"])\<close>.\<close>

definition call_tool :: "tool \<Rightarrow> pyval \<Rightarrow> exn + pyval" where
  "call_tool t execution_plan =
     (case subscript execution_plan ''parameters'' of
        Inl e \<Rightarrow> Inl e
      | Inr params \<Rightarrow>
          (case kwargs_of params of Inl e \<Rightarrow> Inl e | Inr kw \<Rightarrow> t_call t kw))"

text \<open>
  \<open>_execute_step\<close> from the point where the model's response is at hand: decode it,
  resolve the tool it names, call the tool, wrap a failure of the call.
\<close>

definition execute_decision :: "env \<Rightarrow> executor \<Rightarrow> pyval \<Rightarrow> string \<Rightarrow> exn + pyval" where
  "execute_decision env ex step content =
     (case json_loads env content of
        Inl e \<Rightarrow> Inl e
      | Inr execution_plan \<Rightarrow>
     (case subscript execution_plan ''tool'' of
        Inl e \<Rightarrow> Inl e
      | Inr name \<Rightarrow>
     (case tools_get ex name of
        Inl e \<Rightarrow> Inl e
      | Inr None \<Rightarrow> Inl (ValueError (''Tool '' @ fmt_val env name @ '' not found''))
      | Inr (Some t) \<Rightarrow>
          (case call_tool t execution_plan of
             Inr result \<Rightarrow> Inr result
           | Inl e \<Rightarrow>
               (case subscript step ''id'' of
                  Inl e' \<Rightarrow> Inl e'
                | Inr sid \<Rightarrow>
                    Inl (RuntimeError (''Error executing step '' @ fmt_val env sid @ '': '' @
                                       exn_str env e)))))))"

definition execute_step :: "env \<Rightarrow> executor \<Rightarrow> pyval \<Rightarrow> (string \<times> cval) list \<Rightarrow> exn + pyval" where
  "execute_step env ex step ctx =
     (case create_execution_prompt env ex step ctx of
        Inl e \<Rightarrow> Inl e
      | Inr p \<Rightarrow>
          (case llm_invoke env p of
             Inl e \<Rightarrow> Inl e
           | Inr content \<Rightarrow> execute_decision env ex step content))"

text \<open>The dependency check of one step: the first offending dependency raises.\<close>

fun check_dependencies :: "env \<Rightarrow> executor \<Rightarrow> pyval list \<Rightarrow> exn + unit" where
  "check_dependencies env ex [] = Inr ()"
| "check_dependencies env ex (dep # deps) =
     (if \<not> hashable dep then Inl (TypeError ''unhashable type'')
      else if \<not> dict_has (step_results ex) dep
        then Inl (ValueError (''Dependency '' @ fmt_val env dep @ '' not satisfied''))
      else check_dependencies env ex deps)"

text \<open>
  The \<open>for step in steps\<close> loop. It returns the executor and the state as the loop
  left them, and the exception that ended it, if any.
\<close>

fun run_steps :: "env \<Rightarrow> executor \<Rightarrow> agent_state \<Rightarrow> pyval list \<Rightarrow> executor \<times> agent_state \<times> exn option" where
  "run_steps env ex s [] = (ex, s, None)"
| "run_steps env ex s (step # rest) =
     (case subscript step ''id'' of
        Inl e \<Rightarrow> (ex, s, Some e)
      | Inr step_id \<Rightarrow>
     (case get_default step ''dependencies'' (VList []) of
        Inl e \<Rightarrow> (ex, s, Some e)
      | Inr dv \<Rightarrow>
     (case iterate dv of
        Inl e \<Rightarrow> (ex, s, Some e)
      | Inr dependencies \<Rightarrow>
     (case check_dependencies env ex dependencies of
        Inl e \<Rightarrow> (ex, s, Some e)
      | Inr u \<Rightarrow>
     (case execute_step env ex step (s_context s) of
        Inl e \<Rightarrow> (ex, s, Some e)
      | Inr result \<Rightarrow>
          if \<not> hashable step_id then (ex, s, Some (TypeError ''unhashable type''))
          else
            let ex' = ex\<lparr>step_results := dict_set (step_results ex) step_id result\<rparr>
            in (case json_dumps env result of
                  Inl e \<Rightarrow> (ex', s, Some e)
                | Inr rj \<Rightarrow>
                    run_steps env ex'
                      (s\<lparr>s_messages := s_messages s @
                           [assistant_message
                              (''Executed step '' @ fmt_val env step_id @ '':\<newline>'' @ rj)]\<rparr>)
                      rest))))))"

text \<open>The body of the \<open>try\<close> block of \<open>process\<close>.\<close>

definition try_body :: "env \<Rightarrow> executor \<Rightarrow> agent_state \<Rightarrow> pyval \<Rightarrow> executor \<times> agent_state \<times> exn option" where
  "try_body env ex s plan =
     (case loads env plan of
        Inl e \<Rightarrow> (ex, s, Some e)
      | Inr plan_data \<Rightarrow>
     (case get_default plan_data ''steps'' (VList []) of
        Inl e \<Rightarrow> (ex, s, Some e)
      | Inr sv \<Rightarrow>
     (case iterate sv of
        Inl e \<Rightarrow> (ex, s, Some e)
      | Inr steps \<Rightarrow>
          (case run_steps env ex s steps of
             (ex1, s1, Some e) \<Rightarrow> (ex1, s1, Some e)
           | (ex1, s1, None) \<Rightarrow>
               (ex1, s1\<lparr>s_context := AList.update ''execution_results'' CacheRef (s_context s1)\<rparr>,
                None)))))"

text \<open>
  \<open>ExecutorAgent.process\<close>. The result type is that of \<open>PlannerAgent.process\<close>: the
  agent object, and the returned state or the exception raised to the caller.
\<close>

definition executor_process :: "env \<Rightarrow> executor \<Rightarrow> agent_state \<Rightarrow> executor \<times> (exn + agent_state)" where
  "executor_process env ex s =
     (let ex0 = executor_initialize ex;
          plan = (case map_of (s_context s) ''plan'' of None \<Rightarrow> VNone | Some c \<Rightarrow> deref ex0 c)
      in if \<not> truthy plan then (ex0, Inr s)
         else
           (case try_body env ex0 s plan of
              (ex1, s1, None) \<Rightarrow> (ex1, Inr s1)
            | (ex1, s1, Some e) \<Rightarrow>
                (ex1, Inr (s1\<lparr>s_messages := s_messages s1 @
                               [assistant_message (''Error during execution: '' @ exn_str env e)]\<rparr>))))"

text \<open>
  The executors a program can hold under Python's formatter: a new one, and what the
  public methods \<open>initialize\<close>, \<open>add_tool\<close> and \<open>process\<close> make of one, whatever
  the model answers and whatever the other library operations do.
\<close>

inductive reachable :: "executor \<Rightarrow> bool" where
  reachable_init: "reachable ExecutorAgent_init"
| reachable_initialize: "reachable ex \<Longrightarrow> reachable (executor_initialize ex)"
| reachable_add_tool: "reachable ex \<Longrightarrow> reachable (executor_add_tool ex t)"
| reachable_process:
    "formats_like_python env \<Longrightarrow> reachable ex \<Longrightarrow> reachable (fst (executor_process env ex s))"

section \<open>Graph driver\<close>

text \<open>\<open>END\<close> is the constant of \<open>langgraph.graph\<close> naming the terminal node.\<close>

definition END :: string where
  "END = ''__end__''"

definition should_continue :: "graph_state \<Rightarrow> bool \<times> string" where
  "should_continue state =
     (if map_of (g_context state) ''plan'' \<noteq> None then (True, ''executor'')
      else if map_of (g_context state) ''execution_results'' \<noteq> None then (False, END)
      else (True, ''planner''))"

text \<open>The loop of \<open>create_agent_graph_with_tools\<close> that adds every tool to both agents.\<close>

fun add_tools :: "planner \<Rightarrow> executor \<Rightarrow> tool list \<Rightarrow> planner \<times> executor" where
  "add_tools pl ex [] = (pl, ex)"
| "add_tools pl ex (t # ts) = add_tools (planner_add_tool pl t) (executor_add_tool ex t) ts"


section \<open>Message kinds\<close>



section \<open>Example inputs\<close>

text \<open>
  The texts, values, tools and environments used by the closed examples below.
  \<open>python_env\<close> formats with \<open>py_format\<close>; it decodes the listed JSON texts and
  rejects any other text, and it serialises the listed values. \<open>py_repr\<close> is Python's
  \<open>repr\<close> of a string of printable ASCII characters and newlines, which is the text
  of a \<open>KeyError\<close> on such a key.
\<close>

definition py_repr :: "string \<Rightarrow> string" where
  "py_repr s =
     (let q = (if CHR 0x27 \<in> set s \<and> CHR 0x22 \<notin> set s then CHR 0x22 else CHR 0x27)
      in q # concat (map (\<lambda>c. if c = CHR 0x5C then [CHR 0x5C, CHR 0x5C]
                              else if c = CHR 0x0A then [CHR 0x5C, CHR ''n'']
                              else if c = q then [CHR 0x5C, c]
                              else [c]) s) @ [q])"

definition plan_dep_missing :: string where
  \<open>plan_dep_missing = ''{"steps": [{"id": "s2", "dependencies": ["s0"]}]}''\<close>

definition plan_then_missing :: string where
  \<open>plan_then_missing =
     ''{"steps": [{"id": "s1", "tool": "search"}, {"id": "s2", "tool": "search", "dependencies": ["s0"]}]}''\<close>

definition plan_chain :: string where
  \<open>plan_chain =
     ''{"steps": [{"id": "s1", "tool": "search"}, {"id": "s2", "tool": "search", "dependencies": ["s1"]}]}''\<close>

definition plan_uses_x :: string where
  \<open>plan_uses_x = ''{"steps": [{"id": "y", "tool": "search", "dependencies": ["x"]}]}''\<close>

definition plan_caches_x :: string where
  \<open>plan_caches_x = ''{"steps": [{"id": "x", "tool": "search"}]}''\<close>

definition plan_no_steps :: string where
  \<open>plan_no_steps = ''{}''\<close>

definition plan_step_no_id :: string where
  \<open>plan_step_no_id = ''{"steps": [{"tool": "search"}]}''\<close>

definition decision_search :: string where
  \<open>decision_search = ''{"tool": "search", "parameters": {"query": "q"}}''\<close>

definition decision_scrape :: string where
  \<open>decision_scrape = ''{"tool": "scrape", "parameters": {"url": "u"}}''\<close>

definition decision_unknown :: string where
  \<open>decision_unknown = ''{"tool": "translate", "parameters": {}}''\<close>

definition decision_no_tool :: string where
  \<open>decision_no_tool = ''{"parameters": {}}''\<close>

definition step_translate :: pyval where
  "step_translate = VDict [(VStr ''id'', VStr ''s3''), (VStr ''tool'', VStr ''translate'')]"

definition step_s1 :: pyval where
  "step_s1 = VDict [(VStr ''id'', VStr ''s1''), (VStr ''tool'', VStr ''search'')]"

definition step_s2_needs :: "string \<Rightarrow> pyval" where
  "step_s2_needs d =
     VDict [(VStr ''id'', VStr ''s2''), (VStr ''tool'', VStr ''search''),
            (VStr ''dependencies'', VList [VStr d])]"

definition step_x :: pyval where
  "step_x = VDict [(VStr ''id'', VStr ''x''), (VStr ''tool'', VStr ''search'')]"

definition step_y :: pyval where
  "step_y = VDict [(VStr ''id'', VStr ''y''), (VStr ''tool'', VStr ''search''),
                   (VStr ''dependencies'', VList [VStr ''x''])]"

definition json_table :: "(string \<times> pyval) list" where
  "json_table =
     [(plan_dep_missing,
         VDict [(VStr ''steps'',
           VList [VDict [(VStr ''id'', VStr ''s2''), (VStr ''dependencies'', VList [VStr ''s0''])]])]),
      (plan_then_missing, VDict [(VStr ''steps'', VList [step_s1, step_s2_needs ''s0''])]),
      (plan_chain, VDict [(VStr ''steps'', VList [step_s1, step_s2_needs ''s1''])]),
      (plan_uses_x, VDict [(VStr ''steps'', VList [step_y])]),
      (plan_caches_x, VDict [(VStr ''steps'', VList [step_x])]),
      (plan_no_steps, VDict []),
      (plan_step_no_id, VDict [(VStr ''steps'', VList [VDict [(VStr ''tool'', VStr ''search'')]])]),
      (decision_search,
         VDict [(VStr ''tool'', VStr ''search''),
                (VStr ''parameters'', VDict [(VStr ''query'', VStr ''q'')])]),
      (decision_scrape,
         VDict [(VStr ''tool'', VStr ''scrape''),
                (VStr ''parameters'', VDict [(VStr ''url'', VStr ''u'')])]),
      (decision_unknown,
         VDict [(VStr ''tool'', VStr ''translate''), (VStr ''parameters'', VDict [])]),
      (decision_no_tool, VDict [(VStr ''parameters'', VDict [])])]"

text \<open>The values that \<open>python_env\<close> serialises, with their text under \<open>indent=2\<close>.\<close>

definition dumps_table :: "(pyval \<times> string) list" where
  \<open>dumps_table = [(VDict [], ''{}'')]\<close>

definition python_env :: env where
  "python_env =
     \<lparr>json_loads = (\<lambda>s. case map_of json_table s of
                            None \<Rightarrow> Inl (JSONDecodeError ''Expecting value'')
                          | Some v \<Rightarrow> Inr v),
      json_dumps = (\<lambda>v. case map_of dumps_table v of
                            None \<Rightarrow> Inl (TypeError ''Object is not JSON serializable'')
                          | Some t \<Rightarrow> Inr t),
      str_format = (\<lambda>t kw. case py_format t kw of
                               None \<Rightarrow> Inl (ValueError ''format string not modelled'')
                             | Some r \<Rightarrow> r),
      py_str = (\<lambda>v. case v of VStr s \<Rightarrow> s | _ \<Rightarrow> ''None''),
      exc_text = (\<lambda>e. case e of
                         KeyError (VStr k) \<Rightarrow> py_repr k
                       | KeyError _ \<Rightarrow> ''None''
                       | TypeError m \<Rightarrow> m
                       | AttributeError m \<Rightarrow> m
                       | ValueError m \<Rightarrow> m
                       | RuntimeError m \<Rightarrow> m
                       | JSONDecodeError m \<Rightarrow> m
                       | ProviderError m \<Rightarrow> m),
      llm_invoke = (\<lambda>p. Inr decision_search)\<rparr>"

text \<open>
  \<open>lenient_env\<close> differs from \<open>python_env\<close> in two operations: its formatter returns
  the template as it is, and its \<open>json_dumps\<close> renders every value as \<open>{}\<close>. It serves
  to exercise the code that follows the construction of a prompt.
\<close>

definition lenient_env :: env where
  "lenient_env = python_env\<lparr>str_format := (\<lambda>t kw. Inr t), json_dumps := (\<lambda>v. Inr ''{}'')\<rparr>"


definition search_tool :: tool where
  "search_tool =
     \<lparr>t_name = ''search'', t_description = ''Search the web'',
      t_call = (\<lambda>kw. Inr (VStr ''found''))\<rparr>"

definition search_tool2 :: tool where
  "search_tool2 =
     \<lparr>t_name = ''search'', t_description = ''Search the archive'',
      t_call = (\<lambda>kw. Inr (VStr ''archived''))\<rparr>"

definition scrape_tool :: tool where
  "scrape_tool =
     \<lparr>t_name = ''scrape'', t_description = ''Scrape a page'',
      t_call = (\<lambda>kw. Inr (VStr ''scraped''))\<rparr>"

definition user_message :: message where
  "user_message = [(''role'', VStr ''user''), (''content'', VStr ''Find recent papers'')]"

definition state_with_plan :: "string \<Rightarrow> agent_state" where
  "state_with_plan p =
     \<lparr>s_messages = [user_message], s_memory = [], s_context = [(''plan'', Val (VStr p))]\<rparr>"

definition fresh_state :: agent_state where
  "fresh_state = \<lparr>s_messages = [user_message], s_memory = [], s_context = []\<rparr>"

definition search_executor :: executor where
  "search_executor = executor_add_tool ExecutorAgent_init search_tool"

definition two_tool_executor :: executor where
  "two_tool_executor = executor_add_tool search_executor scrape_tool"

text \<open>An executor that has registered \<open>scrape\<close> and nothing else.\<close>

definition scrape_executor :: executor where
  "scrape_executor = executor_add_tool ExecutorAgent_init scrape_tool"

definition both_keys_state :: graph_state where
  "both_keys_state =
     \<lparr>g_messages = [user_message], g_memory = [],
      g_context = [(''execution_results'', CacheRef), (''plan'', Val (VStr plan_chain))],
      current_agent = ''executor''\<rparr>"

definition results_only_state :: graph_state where
  "results_only_state =
     \<lparr>g_messages = [user_message], g_memory = [],
      g_context = [(''execution_results'', CacheRef)], current_agent = ''executor''\<rparr>"

definition empty_graph_state :: graph_state where
  "empty_graph_state =
     \<lparr>g_messages = [user_message], g_memory = [], g_context = [], current_agent = []\<rparr>"


section \<open>Formatting the prompt templates\<close>

lemma planning_template_format:
  "py_format planning_template [(''tools'', l)] = Some (Inl (KeyError (VStr planning_field)))"
  by code_simp

lemma execution_template_format:
  "py_format execution_template [(''tools'', l), (''previous_results'', p)] =
     Some (Inl (KeyError (VStr execution_field)))"
  by code_simp


lemma create_planning_prompt_python:
  "formats_like_python env \<Longrightarrow>
   create_planning_prompt env pl task = Inl (KeyError (VStr planning_field))"
  by (simp add: formats_like_python_def create_planning_prompt_def planning_template_format)

lemma create_execution_prompt_python:
  "formats_like_python env \<Longrightarrow>
   create_execution_prompt env ex step ctx =
     (case json_dumps env (VDict (step_results ex)) of
        Inl e \<Rightarrow> Inl e
      | Inr prev \<Rightarrow> Inl (KeyError (VStr execution_field)))"
  by (simp add: formats_like_python_def create_execution_prompt_def execution_template_format
           split: sum.splits)

lemma execute_step_python:
  "formats_like_python env \<Longrightarrow> execute_step env ex step ctx \<noteq> Inr result"
  by (simp add: execute_step_def create_execution_prompt_python split: sum.splits)

lemma python_env_formats: "formats_like_python python_env"
  by (simp add: formats_like_python_def python_env_def)

section \<open>The step loop\<close>

text \<open>
  The loop reads the context and never writes it; it leaves the executor's tools
  alone; it only adds keys to the step-result cache; and the messages it appends are
  echoes of finished steps.
\<close>

lemma run_steps_context:
  "run_steps env ex s steps = (ex1, s1, r) \<Longrightarrow>
   s_context s1 = s_context s \<and> s_memory s1 = s_memory s"
proof (induction steps arbitrary: ex s)
  case Nil
  then show ?case by simp
next
  case (Cons step rest)
  then show ?case
    by (fastforce simp: Let_def split: sum.splits if_splits)
qed

lemma run_steps_executor:
  "run_steps env ex s steps = (ex1, s1, r) \<Longrightarrow>
   e_tools ex1 = e_tools ex \<and> e_initialized ex1 = e_initialized ex"
proof (induction steps arbitrary: ex s)
  case Nil
  then show ?case by simp
next
  case (Cons step rest)
  then show ?case
    by (fastforce simp: Let_def split: sum.splits if_splits)
qed

lemma dict_get_set:
  "dict_get (dict_set d k v) k' = (if key_of k = key_of k' then Some v else dict_get d k')"
  by (induction d) auto

lemma dict_has_set: "dict_has (dict_set d k v) k' = (key_of k = key_of k' \<or> dict_has d k')"
  by (simp add: dict_has_def dict_get_set)

lemma run_steps_cache_mono:
  "run_steps env ex s steps = (ex1, s1, r) \<Longrightarrow>
   dict_has (step_results ex) k \<Longrightarrow> dict_has (step_results ex1) k"
proof (induction steps arbitrary: ex s)
  case Nil
  then show ?case by simp
next
  case (Cons step rest)
  then show ?case
    by (fastforce simp: Let_def dict_has_set split: sum.splits if_splits)
qed


text \<open>
  The loop takes the steps in list order: the run over \<open>pre @ rest\<close> is the run over
  \<open>pre\<close> followed, when that completed, by the run over \<open>rest\<close> from where it ended;
  when the run over \<open>pre\<close> was ended by an exception, \<open>rest\<close> has no effect at all.
\<close>

lemma run_steps_abort_prefix:
  "run_steps env ex s pre = (ex1, s1, Some e) \<Longrightarrow>
   run_steps env ex s (pre @ rest) = (ex1, s1, Some e)"
proof (induction pre arbitrary: ex s)
  case Nil
  then show ?case by simp
next
  case (Cons step pre)
  then show ?case
    by (auto simp: Let_def split: sum.splits if_splits)
qed

lemma run_steps_append:
  "run_steps env ex s pre = (ex1, s1, None) \<Longrightarrow>
   run_steps env ex s (pre @ rest) = run_steps env ex1 s1 rest"
proof (induction pre arbitrary: ex s)
  case Nil
  then show ?case by simp
next
  case (Cons step pre)
  then show ?case
    by (auto simp: Let_def split: sum.splits if_splits)
qed

lemma try_body_context:
  "try_body env ex s plan = (ex1, s1, Some e) \<Longrightarrow> s_context s1 = s_context s"
  by (auto simp: try_body_def split: sum.splits prod.splits option.splits
           dest: run_steps_context)


lemma try_body_cache_mono:
  "try_body env ex s plan = (ex1, s1, r) \<Longrightarrow>
   dict_has (step_results ex) k \<Longrightarrow> dict_has (step_results ex1) k"
  by (auto simp: try_body_def split: sum.splits prod.splits option.splits
           dest: run_steps_cache_mono)


section \<open>The example environment\<close>

lemma python_env_sel:
  "json_loads python_env s =
     (case map_of json_table s of
        None \<Rightarrow> Inl (JSONDecodeError ''Expecting value'')
      | Some v \<Rightarrow> Inr v)"
  "json_dumps python_env v =
     (case map_of dumps_table v of
        None \<Rightarrow> Inl (TypeError ''Object is not JSON serializable'')
      | Some t \<Rightarrow> Inr t)"
  "py_str python_env v = (case v of VStr s \<Rightarrow> s | _ \<Rightarrow> ''None'')"
  "exc_text python_env (KeyError (VStr k)) = py_repr k"
  "llm_invoke python_env p = Inr decision_search"
  by (simp_all add: python_env_def)

lemma execute_step_python_env:
  "json_dumps python_env (VDict (step_results ex)) = Inr t \<Longrightarrow>
   execute_step python_env ex step ctx = Inl (KeyError (VStr execution_field))"
  by (simp add: execute_step_def create_execution_prompt_python [OF python_env_formats])


lemma lenient_env_sel:
  "json_loads lenient_env s = json_loads python_env s"
  "json_dumps lenient_env v = Inr ''{}''"
  "str_format lenient_env t kw = Inr t"
  "py_str lenient_env v = py_str python_env v"
  "exc_text lenient_env e = exc_text python_env e"
  "llm_invoke lenient_env p = Inr decision_search"
  by (simp_all add: lenient_env_def python_env_def)


lemmas example_texts =
  plan_dep_missing_def plan_then_missing_def plan_chain_def plan_uses_x_def plan_caches_x_def
  plan_no_steps_def plan_step_no_id_def decision_search_def decision_scrape_def
  decision_unknown_def decision_no_tool_def

lemmas example_defs =
  state_with_plan_def fresh_state_def search_executor_def two_tool_executor_def
  scrape_executor_def executor_add_tool_def ExecutorAgent_init_def PlannerAgent_init_def
  search_tool_def search_tool2_def scrape_tool_def step_s1_def step_s2_needs_def step_x_def
  step_y_def
  step_translate_def json_table_def dumps_table_def

lemmas executor_defs =
  executor_process_def Let_def executor_initialize_def deref_def try_body_def loads_def
  execute_step_def create_execution_prompt_def execute_decision_def tools_get_def
  call_tool_def fmt_val_def exn_str_def dict_has_def

section \<open>Under Python's formatter\<close>

text \<open>
  With a formatter that agrees with \<open>py_format\<close>, no prompt is ever built: the planner
  raises on every state that has a message, and no call of the executor stores a step
  result.
\<close>

lemma run_steps_python:
  "formats_like_python env \<Longrightarrow>
   run_steps env ex s steps = (ex1, s1, r) \<Longrightarrow> ex1 = ex \<and> s1 = s \<and> (steps \<noteq> [] \<longrightarrow> r \<noteq> None)"
  by (cases steps) (auto simp: execute_step_python split: sum.splits)

lemma try_body_python:
  "formats_like_python env \<Longrightarrow> try_body env ex s plan = (ex1, s1, r) \<Longrightarrow> ex1 = ex"
  by (auto simp: try_body_def split: sum.splits prod.splits option.splits
           dest: run_steps_python)

lemma executor_process_python_cache:
  "formats_like_python env \<Longrightarrow>
   step_results (fst (executor_process env ex s)) = step_results ex"
proof -
  assume f: "formats_like_python env"
  let ?ex0 = "executor_initialize ex"
  have c0: "step_results ?ex0 = step_results ex"
    by (simp add: executor_initialize_def)
  show ?thesis
  proof (cases "case map_of (s_context s) ''plan'' of None \<Rightarrow> False
                | Some c \<Rightarrow> truthy (deref ?ex0 c)")
    case False
    then show ?thesis
      using c0 by (auto simp: executor_process_def Let_def split: option.splits)
  next
    case True
    then obtain c where c: "map_of (s_context s) ''plan'' = Some c" "truthy (deref ?ex0 c)"
      by (auto split: option.splits)
    obtain ex1 s1 r where tb: "try_body env ?ex0 s (deref ?ex0 c) = (ex1, s1, r)"
      by (cases "try_body env ?ex0 s (deref ?ex0 c)") auto
    from try_body_python [OF f tb] have "ex1 = ?ex0" .
    moreover have "fst (executor_process env ex s) = ex1"
      using c tb by (cases r) (simp_all add: executor_process_def Let_def)
    ultimately show ?thesis using c0 by simp
  qed
qed

lemma planner_process_python:
  "formats_like_python env \<Longrightarrow> s_messages s \<noteq> [] \<Longrightarrow>
   planner_process env pl s = (planner_initialize pl, Inl (KeyError (VStr planning_field)))"
  by (simp add: planner_process_def Let_def create_planning_prompt_python)

lemma reachable_cache_empty: "reachable ex \<Longrightarrow> step_results ex = []"
  by (induction rule: reachable.induct)
     (simp_all add: ExecutorAgent_init_def executor_initialize_def executor_add_tool_def
        executor_process_python_cache)



section \<open>The planner's two paths\<close>

text \<open>
  Without messages the planner returns the state as it is. With a message, and when
  the prompt is built and the model answers, it stores the answer under \<open>plan\<close> and
  appends one assistant message.
\<close>

lemma planner_process_empty:
  "s_messages s = [] \<Longrightarrow> planner_process env pl s = (planner_initialize pl, Inr s)"
  by (simp add: planner_process_def Let_def)

lemma planner_process_stores_plan:
  "s_messages s \<noteq> [] \<Longrightarrow>
   create_planning_prompt env (planner_initialize pl) (last_content (s_messages s)) = Inr p \<Longrightarrow>
   llm_invoke env p = Inr content \<Longrightarrow>
   planner_process env pl s =
     (planner_initialize pl,
      Inr (s\<lparr>s_context := AList.update ''plan'' (Val (VStr content)) (s_context s),
             s_messages := s_messages s @
               [assistant_message (''Created execution plan:\<newline>'' @ content)]\<rparr>))"
  by (simp add: planner_process_def Let_def)

section \<open>The executor and its cache\<close>

lemma executor_process_cache_mono:
  "dict_has (step_results ex) k \<Longrightarrow> dict_has (step_results (fst (executor_process env ex s))) k"
proof -
  assume k: "dict_has (step_results ex) k"
  have k0: "dict_has (step_results (executor_initialize ex)) k"
    using k by (simp add: executor_initialize_def)
  show ?thesis
  proof (cases "case map_of (s_context s) ''plan'' of None \<Rightarrow> False
                | Some c \<Rightarrow> truthy (deref (executor_initialize ex) c)")
    case False
    then show ?thesis
      using k0 by (auto simp: executor_process_def Let_def split: option.splits)
  next
    case True
    then obtain c where c: "map_of (s_context s) ''plan'' = Some c"
      "truthy (deref (executor_initialize ex) c)"
      by (auto split: option.splits)
    obtain ex1 s1 r where
      tb: "try_body env (executor_initialize ex) s (deref (executor_initialize ex) c) = (ex1, s1, r)"
      by (cases "try_body env (executor_initialize ex) s (deref (executor_initialize ex) c)") auto
    from try_body_cache_mono [OF tb k0] have "dict_has (step_results ex1) k" .
    moreover have "fst (executor_process env ex s) = ex1"
      using c tb by (cases r) (simp_all add: executor_process_def Let_def)
    ultimately show ?thesis by simp
  qed
qed

lemma check_dependencies_cached:
  "list_all (\<lambda>d. hashable d \<and> dict_has (step_results ex) d) deps \<Longrightarrow>
   check_dependencies env ex deps = Inr ()"
  by (induction deps) auto

lemma chain_plan_completes_when_prompts_build:
  "executor_process lenient_env search_executor (state_with_plan plan_chain) =
     (search_executor\<lparr>e_initialized := True,
        step_results := [(VStr ''s1'', VStr ''found''), (VStr ''s2'', VStr ''found'')]\<rparr>,
      Inr \<lparr>s_messages =
              [user_message, assistant_message ''Executed step s1:\<newline>{}'',
               assistant_message ''Executed step s2:\<newline>{}''],
           s_memory = [],
           s_context = [(''plan'', Val (VStr plan_chain)), (''execution_results'', CacheRef)]\<rparr>)"
  by (simp add: executor_defs lenient_env_sel python_env_sel example_defs example_texts)

text \<open>
  Two calls on one executor when prompts build: the first caches \<open>x\<close>, and the second,
  with another plan, executes the step \<open>y\<close> that depends on \<open>x\<close>.
\<close>

lemma second_call_uses_first_result_when_prompts_build:
  "executor_process lenient_env search_executor (state_with_plan plan_caches_x) =
     (search_executor\<lparr>e_initialized := True, step_results := [(VStr ''x'', VStr ''found'')]\<rparr>,
      Inr \<lparr>s_messages = [user_message, assistant_message ''Executed step x:\<newline>{}''],
           s_memory = [],
           s_context = [(''plan'', Val (VStr plan_caches_x)), (''execution_results'', CacheRef)]\<rparr>) \<and>
   executor_process lenient_env
       (search_executor\<lparr>e_initialized := True, step_results := [(VStr ''x'', VStr ''found'')]\<rparr>)
       (state_with_plan plan_uses_x) =
     (search_executor\<lparr>e_initialized := True,
        step_results := [(VStr ''x'', VStr ''found''), (VStr ''y'', VStr ''found'')]\<rparr>,
      Inr \<lparr>s_messages = [user_message, assistant_message ''Executed step y:\<newline>{}''],
           s_memory = [],
           s_context = [(''plan'', Val (VStr plan_uses_x)), (''execution_results'', CacheRef)]\<rparr>)"
  by (simp add: executor_defs lenient_env_sel python_env_sel example_defs example_texts)

section \<open>The code behind the prompt\<close>

text \<open>
  Once the model's response is at hand, \<open>_execute_step\<close> looks up the name that the
  response gives under \<open>tool\<close>: an unregistered name raises the tool-not-found error,
  a registered one has its tool called. The \<open>tool\<close> field of the step takes no part:
  with the decision naming \<open>scrape\<close>, a step whose field says \<open>search\<close> gets the result
  of \<open>scrape\<close>, and with the decision naming \<open>search\<close>, a step whose field names the
  unregistered \<open>translate\<close> gets the result of \<open>search\<close>.
\<close>

lemma execute_decision_resolves_named_tool:
  assumes "json_loads env content = Inr d"
      and "subscript d ''tool'' = Inr (VStr n)"
  shows "(map_of (e_tools ex) n = None \<longrightarrow>
            execute_decision env ex step content = Inl (ValueError (''Tool '' @ n @ '' not found''))) \<and>
         (\<forall>t r. map_of (e_tools ex) n = Some t \<and> call_tool t d = Inr r \<longrightarrow>
            execute_decision env ex step content = Inr r)"
  using assms by (auto simp: execute_decision_def tools_get_def fmt_val_def)

lemma decision_overrides_step_tool:
  "subscript step_s1 ''tool'' = Inr (VStr ''search'') \<and>
   execute_decision python_env two_tool_executor step_s1 decision_scrape = Inr (VStr ''scraped'') \<and>
   execute_decision python_env two_tool_executor step_s1 decision_unknown =
     Inl (ValueError ''Tool translate not found'') \<and>
   subscript step_translate ''tool'' = Inr (VStr ''translate'') \<and>
   map_of (e_tools two_tool_executor) ''translate'' = None \<and>
   execute_decision python_env two_tool_executor step_translate decision_search =
     Inr (VStr ''found'')"
  by (simp add: executor_defs python_env_sel example_defs example_texts)

section \<open>Registering tools\<close>

lemma find_append_case:
  "find P (xs @ ys) = (case find P xs of None \<Rightarrow> find P ys | Some x \<Rightarrow> Some x)"
  by (induction xs) auto

lemma add_tools_planner:
  "add_tools pl ex ts = (pl', ex') \<Longrightarrow> p_tools pl' = p_tools pl @ ts"
  by (induction ts arbitrary: pl ex) (auto simp: planner_add_tool_def)

lemma add_tools_executor:
  "add_tools pl ex ts = (pl', ex') \<Longrightarrow>
   map_of (e_tools ex') n =
     (case find (\<lambda>t. t_name t = n) (rev ts) of
        None \<Rightarrow> map_of (e_tools ex) n
      | Some t \<Rightarrow> Some t)"
proof (induction ts arbitrary: pl ex)
  case Nil
  then show ?case by simp
next
  case (Cons t ts)
  from Cons.prems have
    "add_tools (planner_add_tool pl t) (executor_add_tool ex t) ts = (pl', ex')"
    by simp
  from Cons.IH [OF this] show ?case
    by (auto simp: find_append_case executor_add_tool_def update_conv' split: option.splits)
qed

section \<open>Claims about the executor's results\<close>

text \<open>
  Claim C1, as amended. \<open>ExecutorAgent.process\<close> on a state whose plan is truthy and
  decodes to a list of steps: when the step loop completes, \<open>execution_results\<close> is
  bound in the context to the executor's step-result cache itself (a reference, not a
  copy, so reading it gives what the cache holds at that moment). When the loop is
  ended by an exception, the context is left exactly as it was, so no
  \<open>execution_results\<close> key is written by this call; one error message is appended
  after the echoes of the finished steps, and the results of those steps stay in the
  executor's cache only.
\<close>

theorem execution_results_only_on_completion:
  assumes "map_of (s_context s) ''plan'' = Some c"
      and "truthy (deref (executor_initialize ex) c)"
      and "loads env (deref (executor_initialize ex) c) = Inr plan_data"
      and "get_default plan_data ''steps'' (VList []) = Inr sv"
      and "iterate sv = Inr steps"
      and "run_steps env (executor_initialize ex) s steps = (ex1, s1, r)"
  shows "executor_process env ex s =
           (ex1, Inr (case r of
                        None \<Rightarrow>
                          s1\<lparr>s_context := AList.update ''execution_results'' CacheRef (s_context s)\<rparr>
                      | Some e \<Rightarrow>
                          s1\<lparr>s_messages := s_messages s1 @
                               [assistant_message (''Error during execution: '' @ exn_str env e)]\<rparr>)) \<and>
         s_context s1 = s_context s \<and>
         deref ex1 CacheRef = VDict (step_results ex1)"
proof -
  from run_steps_context [OF assms(6)] have ctx: "s_context s1 = s_context s" by simp
  show ?thesis
    using assms ctx
    by (cases r) (simp_all add: executor_process_def Let_def try_body_def deref_def)
qed

text \<open>
  The run of \<open>[s1, s2]\<close> where \<open>s2\<close> depends on the absent \<open>s0\<close>, with prompts that
  build: \<open>s1\<close> is executed and cached, the loop stops at \<open>s2\<close>, and the context still
  holds the plan alone.
\<close>

theorem execution_results_only_on_completion_witness:
  "run_steps lenient_env (executor_initialize search_executor) (state_with_plan plan_then_missing)
       [step_s1, step_s2_needs ''s0''] =
     (search_executor\<lparr>e_initialized := True, step_results := [(VStr ''s1'', VStr ''found'')]\<rparr>,
      (state_with_plan plan_then_missing)
        \<lparr>s_messages := [user_message, assistant_message ''Executed step s1:\<newline>{}'']\<rparr>,
      Some (ValueError ''Dependency s0 not satisfied'')) \<and>
   executor_process lenient_env search_executor (state_with_plan plan_then_missing) =
     (search_executor\<lparr>e_initialized := True, step_results := [(VStr ''s1'', VStr ''found'')]\<rparr>,
      Inr \<lparr>s_messages =
              [user_message, assistant_message ''Executed step s1:\<newline>{}'',
               assistant_message ''Error during execution: Dependency s0 not satisfied''],
           s_memory = [],
           s_context = [(''plan'', Val (VStr plan_then_missing))]\<rparr>)"
proof -
  let ?s = "state_with_plan plan_then_missing"
  let ?ex1 = "search_executor\<lparr>e_initialized := True, step_results := [(VStr ''s1'', VStr ''found'')]\<rparr>"
  have h1: "map_of (s_context ?s) ''plan'' = Some (Val (VStr plan_then_missing))"
    by (simp add: state_with_plan_def)
  have h2: "truthy (deref (executor_initialize search_executor) (Val (VStr plan_then_missing)))"
    by (simp add: deref_def plan_then_missing_def)
  have h3: "loads lenient_env (deref (executor_initialize search_executor) (Val (VStr plan_then_missing))) =
              Inr (VDict [(VStr ''steps'', VList [step_s1, step_s2_needs ''s0''])])"
    by (simp add: deref_def loads_def lenient_env_sel python_env_sel example_defs example_texts)
  have h4: "get_default (VDict [(VStr ''steps'', VList [step_s1, step_s2_needs ''s0''])]) ''steps'' (VList []) =
              Inr (VList [step_s1, step_s2_needs ''s0''])"
    by simp
  have h5: "iterate (VList [step_s1, step_s2_needs ''s0'']) = Inr [step_s1, step_s2_needs ''s0'']"
    by simp
  have h6: "run_steps lenient_env (executor_initialize search_executor) ?s [step_s1, step_s2_needs ''s0''] =
              (?ex1, ?s\<lparr>s_messages := [user_message, assistant_message ''Executed step s1:\<newline>{}'']\<rparr>,
               Some (ValueError ''Dependency s0 not satisfied''))"
    by (simp add: executor_defs lenient_env_sel python_env_sel example_defs example_texts)
  from execution_results_only_on_completion [OF h1 h2 h3 h4 h5 h6] h6
  show ?thesis
    by (simp add: state_with_plan_def exn_str_def assistant_message_def)
qed

text \<open>
  Claim C1 as stated fails. A plan whose only step depends on the absent \<open>s0\<close>
  decodes, the loop aborts at the dependency check, and \<open>process\<close> returns with the
  error message appended and no \<open>execution_results\<close> key in the context.
\<close>

theorem execution_results_absent_after_abort:
  "executor_process python_env ExecutorAgent_init (state_with_plan plan_dep_missing) =
     (ExecutorAgent_init\<lparr>e_initialized := True\<rparr>,
      Inr \<lparr>s_messages =
              [user_message,
               assistant_message ''Error during execution: Dependency s0 not satisfied''],
           s_memory = [],
           s_context = [(''plan'', Val (VStr plan_dep_missing))]\<rparr>)"
  by (simp add: executor_defs python_env_sel example_defs example_texts)

section \<open>Claims about error propagation\<close>



section \<open>Claims about the router\<close>

text \<open>
  Claim C3. The router is a function of the context alone, evaluated in a fixed
  priority order: when the key \<open>plan\<close> is present the result is (continue, executor),
  whatever else the context holds, so a context with both \<open>plan\<close> and
  \<open>execution_results\<close> still routes to the executor; otherwise, when
  \<open>execution_results\<close> is present the result is (stop, END); otherwise it is
  (continue, planner).
\<close>

theorem router_priority_order:
  "(g_context st = g_context st' \<longrightarrow> should_continue st = should_continue st') \<and>
   (''plan'' \<in> fst ` set (g_context st) \<longrightarrow> should_continue st = (True, ''executor'')) \<and>
   (''plan'' \<notin> fst ` set (g_context st) \<and> ''execution_results'' \<in> fst ` set (g_context st) \<longrightarrow>
      should_continue st = (False, END)) \<and>
   (''plan'' \<notin> fst ` set (g_context st) \<and> ''execution_results'' \<notin> fst ` set (g_context st) \<longrightarrow>
      should_continue st = (True, ''planner''))"
  by (simp add: should_continue_def map_of_eq_None_iff)

theorem router_priority_order_witness:
  "''plan'' \<in> fst ` set (g_context both_keys_state) \<and>
   ''execution_results'' \<in> fst ` set (g_context both_keys_state) \<and>
   should_continue both_keys_state = (True, ''executor'') \<and>
   ''plan'' \<notin> fst ` set (g_context results_only_state) \<and>
   ''execution_results'' \<in> fst ` set (g_context results_only_state) \<and>
   should_continue results_only_state = (False, END) \<and>
   ''plan'' \<notin> fst ` set (g_context empty_graph_state) \<and>
   ''execution_results'' \<notin> fst ` set (g_context empty_graph_state) \<and>
   should_continue empty_graph_state = (True, ''planner'') \<and>
   g_context empty_graph_state = g_context (empty_graph_state\<lparr>current_agent := ''planner''\<rparr>) \<and>
   should_continue empty_graph_state = should_continue (empty_graph_state\<lparr>current_agent := ''planner''\<rparr>)"
  using router_priority_order [of both_keys_state both_keys_state]
        router_priority_order [of results_only_state results_only_state]
        router_priority_order [of empty_graph_state "empty_graph_state\<lparr>current_agent := ''planner''\<rparr>"]
  by (auto simp: both_keys_state_def results_only_state_def empty_graph_state_def)

section \<open>Claims about the step loop\<close>

text \<open>
  Claim C4. The plan \<open>[s1, s2]\<close> with \<open>s2\<close> depending on \<open>s1\<close>, run by a fresh executor
  that knows the tool \<open>search\<close>, under Python's formatter: building the prompt of \<open>s1\<close>
  raises \<open>KeyError\<close>, the loop stops there, nothing is cached and the context gets no
  \<open>execution_results\<close>. (That the loop takes the steps in list order and that an
  abort leaves every later step untouched are \<open>run_steps_append\<close> and
  \<open>run_steps_abort_prefix\<close>; what the same plan yields when prompts build is
  \<open>chain_plan_completes_when_prompts_build\<close>.)
\<close>

theorem chain_plan_aborts_at_first_prompt:
  "executor_process python_env search_executor (state_with_plan plan_chain) =
     (search_executor\<lparr>e_initialized := True\<rparr>,
      Inr \<lparr>s_messages =
              [user_message,
               assistant_message (''Error during execution: '' @ py_repr execution_field)],
           s_memory = [],
           s_context = [(''plan'', Val (VStr plan_chain))]\<rparr>) \<and>
   step_results search_executor = []"
proof -
  have "execute_step python_env (search_executor\<lparr>e_initialized := True\<rparr>) step ctx =
          Inl (KeyError (VStr execution_field))" for step ctx
    by (rule execute_step_python_env [of _ "''{}''"])
       (simp add: python_env_sel dumps_table_def search_executor_def executor_add_tool_def
          ExecutorAgent_init_def)
  then show ?thesis
    by (simp add: executor_process_def Let_def executor_initialize_def ExecutorAgent_init_def
          state_with_plan_def deref_def try_body_def loads_def json_table_def python_env_sel
          exn_str_def search_executor_def executor_add_tool_def example_texts
          step_s1_def step_s2_needs_def)
qed

text \<open>
  Claim C5. Two calls of \<open>process\<close> on one executor that knows the tool \<open>search\<close>,
  under Python's formatter. The first call runs a plan with the single step \<open>x\<close>:
  building the prompt of \<open>x\<close> raises \<open>KeyError\<close> before a result could be stored, so the
  cache, empty at construction, is still empty after the call. The second call runs
  another plan, whose step \<open>y\<close> lists \<open>x\<close> as its dependency: the dependency check finds
  no \<open>x\<close> and the call ends with the error that the dependency is not satisfied. (That
  no call removes a key from the cache is \<open>executor_process_cache_mono\<close>, and a step
  whose dependencies are all cached passes the check by \<open>check_dependencies_cached\<close>;
  what the two calls yield when prompts build is
  \<open>second_call_uses_first_result_when_prompts_build\<close>; that no executor ever holds a
  cached result under Python's formatter is \<open>reachable_cache_empty\<close>.)
\<close>

theorem first_call_caches_nothing:
  "step_results ExecutorAgent_init = [] \<and>
   step_results search_executor = [] \<and>
   executor_process python_env search_executor (state_with_plan plan_caches_x) =
     (search_executor\<lparr>e_initialized := True\<rparr>,
      Inr \<lparr>s_messages =
              [user_message,
               assistant_message (''Error during execution: '' @ py_repr execution_field)],
           s_memory = [],
           s_context = [(''plan'', Val (VStr plan_caches_x))]\<rparr>) \<and>
   step_results (search_executor\<lparr>e_initialized := True\<rparr>) = [] \<and>
   executor_process python_env (search_executor\<lparr>e_initialized := True\<rparr>)
       (state_with_plan plan_uses_x) =
     (search_executor\<lparr>e_initialized := True\<rparr>,
      Inr \<lparr>s_messages =
              [user_message,
               assistant_message ''Error during execution: Dependency x not satisfied''],
           s_memory = [],
           s_context = [(''plan'', Val (VStr plan_uses_x))]\<rparr>)"
proof -
  have "execute_step python_env (search_executor\<lparr>e_initialized := True\<rparr>) step ctx =
          Inl (KeyError (VStr execution_field))" for step ctx
    by (rule execute_step_python_env [of _ "''{}''"])
       (simp add: python_env_sel dumps_table_def search_executor_def executor_add_tool_def
          ExecutorAgent_init_def)
  then show ?thesis
    by (simp add: executor_process_def Let_def executor_initialize_def ExecutorAgent_init_def
          state_with_plan_def deref_def try_body_def loads_def json_table_def python_env_sel
          exn_str_def fmt_val_def dict_has_def search_executor_def executor_add_tool_def
          example_texts step_x_def step_y_def)
qed

section \<open>Claims about the planner\<close>

text \<open>
  Claim C6. \<open>PlannerAgent.process\<close> on a state with one user message, a fresh planner
  and Python's formatter: building the prompt calls \<open>str.format\<close> on the planning
  template, whose example JSON object opens a replacement field named by the text up
  to its first colon. The call raises \<open>KeyError\<close> before the proposal is requested; no
  plan is stored and no message is appended. (The two paths the planner is written
  for are \<open>planner_process_empty\<close> and \<open>planner_process_stores_plan\<close>.)
\<close>

theorem planner_prompt_raises:
  "planner_process python_env PlannerAgent_init fresh_state =
     (PlannerAgent_init\<lparr>p_initialized := True\<rparr>, Inl (KeyError (VStr planning_field)))"
  by (simp add: planner_process_def Let_def planner_initialize_def PlannerAgent_init_def
        fresh_state_def create_planning_prompt_python [OF python_env_formats])

section \<open>Claims about tools\<close>


text \<open>
  Claim C8, as amended. The executor keeps a registry keyed by name, in which the
  last registration under a name wins; the planner keeps a list of its own, to which
  every registration is appended. The setup loop adds each tool to both, so after it
  the planner lists all the tools in order, and the executor resolves a name to the
  last tool of the list that bears it.
\<close>

theorem registration_last_wins:
  "add_tools pl ex ts = (pl', ex') \<Longrightarrow>
   p_tools pl' = p_tools pl @ ts \<and>
   map_of (e_tools ex') n =
     (case find (\<lambda>t. t_name t = n) (rev ts) of
        None \<Rightarrow> map_of (e_tools ex) n
      | Some t \<Rightarrow> Some t)"
  using add_tools_planner add_tools_executor by blast

theorem registration_last_wins_witness:
  "add_tools PlannerAgent_init ExecutorAgent_init [search_tool, search_tool2, scrape_tool] =
     (PlannerAgent_init\<lparr>p_tools := [search_tool, search_tool2, scrape_tool]\<rparr>,
      ExecutorAgent_init\<lparr>e_tools := [(''search'', search_tool2), (''scrape'', scrape_tool)]\<rparr>) \<and>
   p_tools (PlannerAgent_init\<lparr>p_tools := [search_tool, search_tool2, scrape_tool]\<rparr>) =
     p_tools PlannerAgent_init @ [search_tool, search_tool2, scrape_tool] \<and>
   map_of (e_tools (ExecutorAgent_init
              \<lparr>e_tools := [(''search'', search_tool2), (''scrape'', scrape_tool)]\<rparr>)) ''search'' =
     Some search_tool2 \<and>
   map_of (e_tools (ExecutorAgent_init
              \<lparr>e_tools := [(''search'', search_tool2), (''scrape'', scrape_tool)]\<rparr>)) ''scrape'' =
     Some scrape_tool"
proof -
  have h: "add_tools PlannerAgent_init ExecutorAgent_init [search_tool, search_tool2, scrape_tool] =
     (PlannerAgent_init\<lparr>p_tools := [search_tool, search_tool2, scrape_tool]\<rparr>,
      ExecutorAgent_init\<lparr>e_tools := [(''search'', search_tool2), (''scrape'', scrape_tool)]\<rparr>)"
    by (simp add: planner_add_tool_def executor_add_tool_def PlannerAgent_init_def
          ExecutorAgent_init_def search_tool_def search_tool2_def scrape_tool_def)
  from registration_last_wins [OF h, of "''search''"] registration_last_wins [OF h, of "''scrape''"] h
  show ?thesis
    by (simp add: search_tool_def search_tool2_def scrape_tool_def)
qed

text \<open>
  Claim C8 as stated fails: there is no registry shared by both agents. After two
  tools named \<open>search\<close> are set up, the planner still lists the first one, which the
  executor can no longer resolve.
\<close>

theorem registries_are_separate:
  "search_tool \<in> set (p_tools (fst (add_tools PlannerAgent_init ExecutorAgent_init
                                     [search_tool, search_tool2]))) \<and>
   map_of (e_tools (snd (add_tools PlannerAgent_init ExecutorAgent_init
                           [search_tool, search_tool2]))) (t_name search_tool) =
     Some search_tool2 \<and>
   search_tool2 \<noteq> search_tool \<and>
   planner_tool_listing (fst (add_tools PlannerAgent_init ExecutorAgent_init
                                [search_tool, search_tool2])) =
     ''- search: Search the web\<newline>- search: Search the archive'' \<and>
   executor_tool_listing (snd (add_tools PlannerAgent_init ExecutorAgent_init
                                 [search_tool, search_tool2])) =
     ''- search: Search the archive''"
  by (simp add: planner_add_tool_def executor_add_tool_def PlannerAgent_init_def
        ExecutorAgent_init_def search_tool_def search_tool2_def planner_tool_listing_def
        executor_tool_listing_def)

section \<open>Claims about absent keys\<close>

text \<open>
  Claim C9, as amended. Keys are looked up without validation. A plan that decodes to
  an object without the key \<open>steps\<close> is read as a plan with no steps:
  \<open>process\<close> completes silently, appending nothing and binding \<open>execution_results\<close>.
  A step without \<open>id\<close> and a decision without \<open>tool\<close> raise \<open>KeyError\<close> where the key
  is first used.
\<close>

theorem absent_keys_default_or_raise:
  "(map_of (s_context s) ''plan'' = Some (Val (VStr t)) \<and> t \<noteq> [] \<and>
    json_loads env t = Inr (VDict kvs) \<and> dict_get kvs (VStr ''steps'') = None \<longrightarrow>
      executor_process env ex s =
        (executor_initialize ex,
         Inr (s\<lparr>s_context := AList.update ''execution_results'' CacheRef (s_context s)\<rparr>))) \<and>
   (dict_get skvs (VStr ''id'') = None \<longrightarrow>
      run_steps env ex s (VDict skvs # rest) = (ex, s, Some (KeyError (VStr ''id'')))) \<and>
   (json_loads env content = Inr (VDict dkvs) \<and> dict_get dkvs (VStr ''tool'') = None \<longrightarrow>
      execute_decision env ex step content = Inl (KeyError (VStr ''tool'')))"
  by (simp add: executor_process_def Let_def deref_def try_body_def loads_def execute_decision_def)

theorem absent_keys_default_or_raise_witness:
  "map_of (s_context (state_with_plan plan_no_steps)) ''plan'' = Some (Val (VStr plan_no_steps)) \<and>
   plan_no_steps \<noteq> [] \<and>
   json_loads python_env plan_no_steps = Inr (VDict []) \<and>
   dict_get [] (VStr ''steps'') = None \<and>
   executor_process python_env search_executor (state_with_plan plan_no_steps) =
     (executor_initialize search_executor,
      Inr ((state_with_plan plan_no_steps)
             \<lparr>s_context := AList.update ''execution_results'' CacheRef
                              (s_context (state_with_plan plan_no_steps))\<rparr>)) \<and>
   dict_get [(VStr ''tool'', VStr ''search'')] (VStr ''id'') = None \<and>
   run_steps python_env search_executor (state_with_plan plan_step_no_id)
     [VDict [(VStr ''tool'', VStr ''search'')]] =
     (search_executor, state_with_plan plan_step_no_id, Some (KeyError (VStr ''id''))) \<and>
   json_loads python_env decision_no_tool = Inr (VDict [(VStr ''parameters'', VDict [])]) \<and>
   dict_get [(VStr ''parameters'', VDict [])] (VStr ''tool'') = None \<and>
   execute_decision python_env search_executor step_s1 decision_no_tool =
     Inl (KeyError (VStr ''tool''))"
proof -
  have h1: "map_of (s_context (state_with_plan plan_no_steps)) ''plan'' =
              Some (Val (VStr plan_no_steps))"
    by (simp add: state_with_plan_def)
  have h2: "plan_no_steps \<noteq> []"
    by (simp add: plan_no_steps_def)
  have h3: "json_loads python_env plan_no_steps = Inr (VDict [])"
    by (simp add: python_env_sel example_defs example_texts)
  have h4: "dict_get [] (VStr ''steps'') = None" by simp
  have h5: "dict_get [(VStr ''tool'', VStr ''search'')] (VStr ''id'') = None" by simp
  have h6: "json_loads python_env decision_no_tool = Inr (VDict [(VStr ''parameters'', VDict [])])"
    by (simp add: python_env_sel example_defs example_texts)
  have h7: "dict_get [(VStr ''parameters'', VDict [])] (VStr ''tool'') = None" by simp
  note a = absent_keys_default_or_raise
      [where s = "state_with_plan plan_no_steps" and t = plan_no_steps and env = python_env
         and kvs = "[]" and ex = search_executor]
  note b = absent_keys_default_or_raise
      [where s = "state_with_plan plan_step_no_id" and env = python_env and ex = search_executor
         and skvs = "[(VStr ''tool'', VStr ''search'')]" and rest = "[]"
         and content = decision_no_tool and dkvs = "[(VStr ''parameters'', VDict [])]"
         and step = step_s1]
  from a h1 h2 h3 h4 have c1:
    "executor_process python_env search_executor (state_with_plan plan_no_steps) =
     (executor_initialize search_executor,
      Inr ((state_with_plan plan_no_steps)
             \<lparr>s_context := AList.update ''execution_results'' CacheRef
                              (s_context (state_with_plan plan_no_steps))\<rparr>))"
    by blast
  from b h5 have c2:
    "run_steps python_env search_executor (state_with_plan plan_step_no_id)
     [VDict [(VStr ''tool'', VStr ''search'')]] =
     (search_executor, state_with_plan plan_step_no_id, Some (KeyError (VStr ''id'')))"
    by blast
  from b h6 h7 have c3:
    "execute_decision python_env search_executor step_s1 decision_no_tool =
     Inl (KeyError (VStr ''tool''))"
    by blast
  from h1 h2 h3 h4 h5 h6 h7 c1 c2 c3 show ?thesis by blast
qed

text \<open>
  Claim C9 as stated fails: the plan text \<open>{}\<close> is a JSON object without \<open>steps\<close>,
  and the executor completes without an error.
\<close>

theorem missing_steps_completes_silently:
  "json_loads python_env plan_no_steps = Inr (VDict []) \<and>
   executor_process python_env ExecutorAgent_init (state_with_plan plan_no_steps) =
     (ExecutorAgent_init\<lparr>e_initialized := True\<rparr>,
      Inr \<lparr>s_messages = [user_message], s_memory = [],
           s_context = [(''plan'', Val (VStr plan_no_steps)), (''execution_results'', CacheRef)]\<rparr>)"
  by (simp add: executor_defs python_env_sel example_defs example_texts)

text \<open>
  Claim C10. When the key \<open>plan\<close> is present but bound to a falsy value, such as the
  empty string, \<open>ExecutorAgent.process\<close> does what it does when the key is absent: it
  returns the state it was given, with nothing decoded, no message appended and no
  \<open>execution_results\<close> key added. Of the executor itself only the \<open>_initialized\<close> flag
  is set.
\<close>

theorem falsy_plan_is_noop:
  "map_of (s_context s) ''plan'' = None \<or>
   (\<exists>c. map_of (s_context s) ''plan'' = Some c \<and> \<not> truthy (deref (executor_initialize ex) c)) \<Longrightarrow>
   executor_process env ex s = (executor_initialize ex, Inr s)"
  by (auto simp: executor_process_def Let_def)

theorem falsy_plan_is_noop_witness:
  "map_of (s_context (state_with_plan [])) ''plan'' = Some (Val (VStr [])) \<and>
   \<not> truthy (deref (executor_initialize search_executor) (Val (VStr []))) \<and>
   executor_process python_env search_executor (state_with_plan []) =
     (executor_initialize search_executor, Inr (state_with_plan [])) \<and>
   map_of (s_context fresh_state) ''plan'' = None \<and>
   executor_process python_env search_executor fresh_state =
     (executor_initialize search_executor, Inr fresh_state)"
proof -
  have h1: "map_of (s_context (state_with_plan [])) ''plan'' = Some (Val (VStr []))"
    by (simp add: state_with_plan_def)
  have h2: "\<not> truthy (deref (executor_initialize search_executor) (Val (VStr [])))"
    by (simp add: deref_def)
  have h3: "map_of (s_context fresh_state) ''plan'' = None"
    by (simp add: fresh_state_def)
  from h1 h2 have
    "map_of (s_context (state_with_plan [])) ''plan'' = None \<or>
     (\<exists>c. map_of (s_context (state_with_plan [])) ''plan'' = Some c \<and>
          \<not> truthy (deref (executor_initialize search_executor) c))"
    by blast
  from falsy_plan_is_noop [OF this] falsy_plan_is_noop [OF disjI1, OF h3] h1 h2 h3
  show ?thesis by blast
qed

end
